theory Spec2Isabelle
  imports Main
begin

section \<open>JavaScript values read by \<open>util/Channels.js\<close>\<close>

text \<open>
  A property of a JavaScript object is either missing (\<open>undefined\<close>), \<open>null\<close>, or holds
  a value. The three cases are kept apart because the source copies \<open>undefined\<close> as it is,
  while \<open>??\<close> and \<open>?.\<close> treat \<open>undefined\<close> and \<open>null\<close> alike.
\<close>

datatype 'a nullable = Undefined | Null | Val 'a

text \<open>\<open>a ?? b\<close>: the right operand is taken exactly when the left one is nullish.\<close>

fun coalesce :: "'a nullable \<Rightarrow> 'a nullable \<Rightarrow> 'a nullable" where
  "coalesce (Val a) b = Val a"
| "coalesce Undefined b = b"
| "coalesce Null b = b"

text \<open>\<open>a?.f\<close>: \<open>undefined\<close> when \<open>a\<close> is nullish, the property otherwise.\<close>

fun opt_chain :: "'a nullable \<Rightarrow> ('a \<Rightarrow> 'b nullable) \<Rightarrow> 'b nullable" where
  "opt_chain (Val a) f = f a"
| "opt_chain Undefined f = Undefined"
| "opt_chain Null f = Undefined"

text \<open>
  ToBoolean, as \<open>!x\<close>, \<open>x ? a : b\<close> and \<open>if (x)\<close> apply it: a string is truthy unless
  it is empty, a boolean is its own value, an object or an array is always truthy, and
  \<open>undefined\<close> and \<open>null\<close> are falsy.
\<close>

fun truthy_str :: "string nullable \<Rightarrow> bool" where
  "truthy_str (Val s) = (s \<noteq> [])"
| "truthy_str Undefined = False"
| "truthy_str Null = False"

fun truthy_bool :: "bool nullable \<Rightarrow> bool" where
  "truthy_bool (Val b) = b"
| "truthy_bool Undefined = False"
| "truthy_bool Null = False"

fun truthy_obj :: "'a nullable \<Rightarrow> bool" where
  "truthy_obj (Val a) = True"
| "truthy_obj Undefined = False"
| "truthy_obj Null = False"

fun present :: "'a nullable \<Rightarrow> bool" where
  "present (Val a) = True"
| "present Undefined = False"
| "present Null = False"

type_synonym snowflake = string

section \<open>Schema transcoder\<close>

text \<open>
  Wire shape of a forum tag (\<open>APIGuildForumTag\<close>) and its application shape
  (\<open>GuildForumTag\<close>, with the nested \<open>emoji\<close> object). The functions read the fields
  without validating them, so every field is a \<open>nullable\<close>.
\<close>

record APIGuildForumTag =
  api_tag_id :: "snowflake nullable"
  api_tag_name :: "string nullable"
  api_tag_moderated :: "bool nullable"
  api_tag_emoji_id :: "snowflake nullable"
  api_tag_emoji_name :: "string nullable"

record GuildForumTagEmoji =
  tag_emoji_id :: "snowflake nullable"
  tag_emoji_name :: "string nullable"

record GuildForumTag =
  tag_id :: "snowflake nullable"
  tag_name :: "string nullable"
  tag_moderated :: "bool nullable"
  tag_emoji :: "GuildForumTagEmoji nullable"

text \<open>
  \<^verbatim>\<open>emoji: (tag.emoji_id ?? tag.emoji_name) ? { id: tag.emoji_id, name: tag.emoji_name } : null\<close>
\<close>

definition transformAPIGuildForumTag :: "APIGuildForumTag \<Rightarrow> GuildForumTag" where
  "transformAPIGuildForumTag tag =
     \<lparr> tag_id = api_tag_id tag,
       tag_name = api_tag_name tag,
       tag_moderated = api_tag_moderated tag,
       tag_emoji =
         (if truthy_str (coalesce (api_tag_emoji_id tag) (api_tag_emoji_name tag))
          then Val \<lparr> tag_emoji_id = api_tag_emoji_id tag,
                     tag_emoji_name = api_tag_emoji_name tag \<rparr>
          else Null) \<rparr>"

text \<open>
  \<^verbatim>\<open>emoji_id: tag.emoji?.id ?? null, emoji_name: tag.emoji?.name ?? null\<close>
\<close>

definition transformGuildForumTag :: "GuildForumTag \<Rightarrow> APIGuildForumTag" where
  "transformGuildForumTag tag =
     \<lparr> api_tag_id = tag_id tag,
       api_tag_name = tag_name tag,
       api_tag_moderated = tag_moderated tag,
       api_tag_emoji_id = coalesce (opt_chain (tag_emoji tag) tag_emoji_id) Null,
       api_tag_emoji_name = coalesce (opt_chain (tag_emoji tag) tag_emoji_name) Null \<rparr>"

text \<open>The default-reaction emoji: wire shape and application shape.\<close>

record APIGuildForumDefaultReactionEmoji =
  api_reaction_emoji_id :: "snowflake nullable"
  api_reaction_emoji_name :: "string nullable"

record DefaultReactionEmoji =
  reaction_id :: "snowflake nullable"
  reaction_name :: "string nullable"

definition transformAPIGuildDefaultReaction ::
    "APIGuildForumDefaultReactionEmoji \<Rightarrow> DefaultReactionEmoji" where
  "transformAPIGuildDefaultReaction defaultReaction =
     \<lparr> reaction_id = api_reaction_emoji_id defaultReaction,
       reaction_name = api_reaction_emoji_name defaultReaction \<rparr>"

definition transformGuildDefaultReaction ::
    "DefaultReactionEmoji \<Rightarrow> APIGuildForumDefaultReactionEmoji" where
  "transformGuildDefaultReaction defaultReaction =
     \<lparr> api_reaction_emoji_id = reaction_id defaultReaction,
       api_reaction_emoji_name = reaction_name defaultReaction \<rparr>"

section \<open>Channel factory\<close>

text \<open>
  The discriminator values of \<open>ChannelType\<close>. The enumeration comes from the package
  \<open>discord-api-types/v10\<close>; the factory compares \<open>data.type\<close> with these numbers by
  strict equality, and only their being pairwise different matters below.
\<close>

definition GuildText :: int where "GuildText = 0"
definition DM :: int where "DM = 1"
definition GuildVoice :: int where "GuildVoice = 2"
definition GroupDM :: int where "GroupDM = 3"
definition GuildCategory :: int where "GuildCategory = 4"
definition GuildAnnouncement :: int where "GuildAnnouncement = 5"
definition AnnouncementThread :: int where "AnnouncementThread = 10"
definition PublicThread :: int where "PublicThread = 11"
definition PrivateThread :: int where "PrivateThread = 12"
definition GuildStageVoice :: int where "GuildStageVoice = 13"
definition GuildDirectory :: int where "GuildDirectory = 14"
definition GuildForum :: int where "GuildForum = 15"
definition GuildMedia :: int where "GuildMedia = 16"

text \<open>
  The payload (\<open>APIChannel\<close>), with the four properties the factory reads: \<open>id\<close>,
  \<open>type\<close>, \<open>guild_id\<close> and \<open>recipients\<close> (the recipients are users, given here by
  their identifiers; the factory only tests the array for truthiness).
\<close>

record APIChannel =
  api_id :: snowflake
  api_type :: int
  api_guild_id :: "snowflake nullable"
  api_recipients :: "snowflake list nullable"

text \<open>The eleven classes the factory loads lazily, in the order of the source.\<close>

datatype channel_class =
    CategoryChannel | DMChannel | AnnouncementChannel | StageChannel | TextChannel
  | ThreadChannel | VoiceChannel | DirectoryChannel | PartialGroupDMChannel
  | ForumChannel | MediaChannel

type_synonym guild_ref = nat
type_synonym channel_ref = nat

text \<open>
  A constructed instance: its class, its \<open>id\<close>, the guild it was constructed with
  (\<open>None\<close> for \<open>undefined\<close>, and for the two user-scoped classes, whose constructors
  take the client instead) and the payload it was constructed from.
\<close>

record channel =
  cls :: channel_class
  channel_id :: snowflake
  channel_guild :: "guild_ref option"
  channel_data :: APIChannel

text \<open>
  Modelled from the spec: the constructors of the channel classes, which live in
  \<open>../structures/*\<close> and are not part of the source at hand. By their contract
  (section 6 of the specification) a constructor takes the owner and the raw payload and
  returns an instance that exposes an \<open>id\<close>, which section 8 takes to be the payload's.
\<close>

definition new_channel :: "channel_class \<Rightarrow> guild_ref option \<Rightarrow> APIChannel \<Rightarrow> channel" where
  "new_channel c guild data =
     \<lparr> cls = c, channel_id = api_id data, channel_guild = guild, channel_data = data \<rparr>"

text \<open>
  The caches the factory reads and writes, as an explicit store. Guild objects and parent
  channel objects are references, so that a guild passed as an argument and a guild found
  in the client's cache may or may not be the same object.
  \<^item> \<open>client_guilds\<close> is \<open>client.guilds.cache\<close>;
  \<^item> \<open>guild_channels g\<close> is \<open>g.channels?.cache\<close>, \<open>None\<close> for a guild object
    without a \<open>channels\<close> property;
  \<^item> \<open>channel_threads p\<close> is \<open>p.threads.cache\<close> of a parent channel \<open>p\<close>.
\<close>

record store =
  client_guilds :: "snowflake \<rightharpoonup> guild_ref"
  guild_channels :: "guild_ref \<Rightarrow> (snowflake \<rightharpoonup> channel) option"
  channel_threads :: "channel_ref \<Rightarrow> (snowflake \<rightharpoonup> channel)"

text \<open>
  Modelled from the spec: the \<open>parent\<close> getter of a constructed thread, also outside the
  source at hand. The specification only says that it navigates from the thread to its
  parent channel, or to nothing; it is therefore a parameter of the factory.
\<close>

type_synonym parent_getter = "store \<Rightarrow> channel \<Rightarrow> channel_ref option"

text \<open>
  The options bag. The type definition in the source documents the property
  \<open>allowFromUnknownGuild\<close>; the parameter list destructures \<open>allowUnknownGuild\<close>. A
  bag may carry either, both or none.
\<close>

record CreateChannelOptions =
  allowUnknownGuild :: "bool nullable"
  allowFromUnknownGuild :: "bool nullable"

datatype js_error = TypeError

text \<open>\<^verbatim>\<open>client.guilds.cache.get(data.guild_id)\<close>\<close>

definition guilds_cache_get :: "store \<Rightarrow> snowflake nullable \<Rightarrow> guild_ref option" where
  "guilds_cache_get s guild_id =
     (case guild_id of Val k \<Rightarrow> client_guilds s k | Undefined \<Rightarrow> None | Null \<Rightarrow> None)"

text \<open>\<^verbatim>\<open>channel.parent?.threads.cache.set(channel.id, channel)\<close>\<close>

definition threads_cache_set :: "parent_getter \<Rightarrow> store \<Rightarrow> channel \<Rightarrow> store" where
  "threads_cache_set parent s channel =
     (case parent s channel of
        None \<Rightarrow> s
      | Some p \<Rightarrow>
          s\<lparr>channel_threads :=
              (channel_threads s)(p := (channel_threads s p)(channel_id channel \<mapsto> channel))\<rparr>)"

text \<open>
  \<^verbatim>\<open>guild.channels?.cache.set(channel.id, channel)\<close>. Reading \<open>channels\<close> of an
  undefined guild is a TypeError.
\<close>

definition channels_cache_set :: "store \<Rightarrow> guild_ref option \<Rightarrow> channel \<Rightarrow> js_error + store" where
  "channels_cache_set s guild channel =
     (case guild of
        None \<Rightarrow> Inl TypeError
      | Some g \<Rightarrow>
          (case guild_channels s g of
             None \<Rightarrow> Inr s
           | Some cache \<Rightarrow>
               Inr (s\<lparr>guild_channels :=
                       (guild_channels s)(g := Some (cache(channel_id channel \<mapsto> channel)))\<rparr>)))"

text \<open>
  The \<open>switch (data.type)\<close> of lines 46 to 83, in the order of its cases. It yields the
  value of \<open>channel\<close> and the store after the case has run; only the thread case writes.
\<close>

definition switch_type ::
    "parent_getter \<Rightarrow> bool nullable \<Rightarrow> store \<Rightarrow> guild_ref option \<Rightarrow> APIChannel
       \<Rightarrow> channel option \<times> store" where
  "switch_type parent allowUG s guild data =
     (if api_type data = GuildText then (Some (new_channel TextChannel guild data), s)
      else if api_type data = GuildVoice then (Some (new_channel VoiceChannel guild data), s)
      else if api_type data = GuildCategory then
        (Some (new_channel CategoryChannel guild data), s)
      else if api_type data = GuildAnnouncement then
        (Some (new_channel AnnouncementChannel guild data), s)
      else if api_type data = GuildStageVoice then
        (Some (new_channel StageChannel guild data), s)
      else if api_type data = AnnouncementThread \<or> api_type data = PublicThread
              \<or> api_type data = PrivateThread then
        (let channel = new_channel ThreadChannel guild data
         in (Some channel,
             if \<not> truthy_bool allowUG then threads_cache_set parent s channel else s))
      else if api_type data = GuildDirectory then
        (Some (new_channel DirectoryChannel guild data), s)
      else if api_type data = GuildForum then (Some (new_channel ForumChannel guild data), s)
      else if api_type data = GuildMedia then (Some (new_channel MediaChannel guild data), s)
      else (None, s))"

text \<open>
  \<open>createChannel(client, data, guild, { allowUnknownGuild } = {})\<close>. The client is the
  owner of the store; \<open>guild\<close> is \<open>None\<close> when the argument is not supplied, and
  \<open>extras\<close> is \<open>None\<close> when the fourth argument is not supplied, in which case the
  default \<open>{}\<close> leaves \<open>allowUnknownGuild\<close> undefined. The result is the returned
  \<open>channel\<close> (\<open>None\<close> for \<open>undefined\<close>) and the store after the call.
\<close>

definition createChannel ::
    "parent_getter \<Rightarrow> store \<Rightarrow> APIChannel \<Rightarrow> guild_ref option \<Rightarrow> CreateChannelOptions option
       \<Rightarrow> js_error + (channel option \<times> store)" where
  "createChannel parent s data guild extras =
     (let allowUG = (case extras of None \<Rightarrow> Undefined | Some e \<Rightarrow> allowUnknownGuild e) in
      if \<not> truthy_str (api_guild_id data) \<and> guild = None then
        (if (truthy_obj (api_recipients data) \<and> api_type data \<noteq> GroupDM)
            \<or> api_type data = DM
         then Inr (Some (new_channel DMChannel None data), s)
         else if api_type data = GroupDM
         then Inr (Some (new_channel PartialGroupDMChannel None data), s)
         else Inr (None, s))
      else
        (let guild' = (case guild of
                         Some g \<Rightarrow> Some g
                       | None \<Rightarrow> guilds_cache_get s (api_guild_id data)) in
         if guild' \<noteq> None \<or> truthy_bool allowUG then
           (case switch_type parent allowUG s guild' data of
              (None, s1) \<Rightarrow> Inr (None, s1)
            | (Some channel, s1) \<Rightarrow>
                if \<not> truthy_bool allowUG then
                  (case channels_cache_set s1 guild' channel of
                     Inl e \<Rightarrow> Inl e
                   | Inr s2 \<Rightarrow> Inr (Some channel, s2))
                else Inr (Some channel, s1))
         else Inr (None, s)))"

text \<open>
  The dispatch table in the words of the specification (section 4.1, step 3, with the
  variants of section 3): each of the eleven guild-scoped discriminators and the
  constructor it selects. The three thread discriminators share the thread constructor;
  the instance keeps the payload, and with it the discriminator.
\<close>

definition guild_variants :: "(int \<times> channel_class) list" where
  "guild_variants =
     [(GuildText, TextChannel), (GuildVoice, VoiceChannel),
      (GuildCategory, CategoryChannel), (GuildAnnouncement, AnnouncementChannel),
      (GuildStageVoice, StageChannel), (AnnouncementThread, ThreadChannel),
      (PublicThread, ThreadChannel), (PrivateThread, ThreadChannel),
      (GuildDirectory, DirectoryChannel), (GuildForum, ForumChannel),
      (GuildMedia, MediaChannel)]"

section \<open>Properties of the transcoder\<close>

text \<open>
  C9. The default-reaction transcoder only renames the two fields: going to the
  application shape and back returns the wire record, and going to the wire shape and
  back returns the application record, whatever the fields hold (\<open>null\<close> included).
\<close>

theorem default_reaction_round_trip:
  "transformGuildDefaultReaction (transformAPIGuildDefaultReaction r) = r \<and>
   transformAPIGuildDefaultReaction (transformGuildDefaultReaction x) = x"
  by (simp add: transformGuildDefaultReaction_def transformAPIGuildDefaultReaction_def)

text \<open>
  C3, as the code has it. The test \<open>(tag.emoji_id ?? tag.emoji_name) ? ... : null\<close> is a
  truthiness test, and the empty string is falsy: the \<open>emoji\<close> of the result is non-null
  exactly when \<open>emoji_id\<close> is a non-empty string, or \<open>emoji_id\<close> is nullish and
  \<open>emoji_name\<close> is a non-empty string. For a tag none of whose two emoji fields is the
  empty string this is: exactly when at least one of them is present. Apart from that
  collapse the transform copies: \<open>id\<close>, \<open>name\<close> and \<open>moderated\<close> are the wire
  fields, and \<open>emoji\<close> is either \<open>null\<close> or the pair of the two wire fields as they are.
\<close>

theorem forum_tag_emoji_collapse:
  "(present (tag_emoji (transformAPIGuildForumTag t)) \<longleftrightarrow>
      (\<exists>i. api_tag_emoji_id t = Val i \<and> i \<noteq> []) \<or>
      (\<not> present (api_tag_emoji_id t) \<and> (\<exists>n. api_tag_emoji_name t = Val n \<and> n \<noteq> [])))
   \<and> (api_tag_emoji_id t \<noteq> Val [] \<and> api_tag_emoji_name t \<noteq> Val [] \<longrightarrow>
        (present (tag_emoji (transformAPIGuildForumTag t)) \<longleftrightarrow>
           present (api_tag_emoji_id t) \<or> present (api_tag_emoji_name t)))
   \<and> tag_id (transformAPIGuildForumTag t) = api_tag_id t
   \<and> tag_name (transformAPIGuildForumTag t) = api_tag_name t
   \<and> tag_moderated (transformAPIGuildForumTag t) = api_tag_moderated t
   \<and> (tag_emoji (transformAPIGuildForumTag t) = Null \<or>
      tag_emoji (transformAPIGuildForumTag t) =
        Val \<lparr>tag_emoji_id = api_tag_emoji_id t, tag_emoji_name = api_tag_emoji_name t\<rparr>)"
  by (cases "api_tag_emoji_id t"; cases "api_tag_emoji_name t")
     (auto simp add: transformAPIGuildForumTag_def)

text \<open>
  The theorem at two tags without empty strings: one with only \<open>emoji_name\<close> present,
  whose result has an emoji, and one with both fields \<open>null\<close>, whose result has none.
\<close>

theorem forum_tag_emoji_collapse_witness:
  "api_tag_emoji_id \<lparr>api_tag_id = Val ''1'', api_tag_name = Val ''help'',
        api_tag_moderated = Val False, api_tag_emoji_id = Null,
        api_tag_emoji_name = Val ''tada''\<rparr> \<noteq> Val []
   \<and> api_tag_emoji_name \<lparr>api_tag_id = Val ''1'', api_tag_name = Val ''help'',
        api_tag_moderated = Val False, api_tag_emoji_id = Null,
        api_tag_emoji_name = Val ''tada''\<rparr> \<noteq> Val []
   \<and> tag_emoji (transformAPIGuildForumTag \<lparr>api_tag_id = Val ''1'', api_tag_name = Val ''help'',
        api_tag_moderated = Val False, api_tag_emoji_id = Null,
        api_tag_emoji_name = Val ''tada''\<rparr>)
      = Val \<lparr>tag_emoji_id = Null, tag_emoji_name = Val ''tada''\<rparr>
   \<and> api_tag_emoji_id \<lparr>api_tag_id = Val ''1'', api_tag_name = Val ''help'',
        api_tag_moderated = Val False, api_tag_emoji_id = Null,
        api_tag_emoji_name = Null\<rparr> \<noteq> Val []
   \<and> api_tag_emoji_name \<lparr>api_tag_id = Val ''1'', api_tag_name = Val ''help'',
        api_tag_moderated = Val False, api_tag_emoji_id = Null,
        api_tag_emoji_name = Null\<rparr> \<noteq> Val []
   \<and> tag_emoji (transformAPIGuildForumTag \<lparr>api_tag_id = Val ''1'', api_tag_name = Val ''help'',
        api_tag_moderated = Val False, api_tag_emoji_id = Null,
        api_tag_emoji_name = Null\<rparr>) = Null"
  using forum_tag_emoji_collapse [of "\<lparr>api_tag_id = Val ''1'', api_tag_name = Val ''help'',
        api_tag_moderated = Val False, api_tag_emoji_id = Null,
        api_tag_emoji_name = Val ''tada''\<rparr>"]
    forum_tag_emoji_collapse [of "\<lparr>api_tag_id = Val ''1'', api_tag_name = Val ''help'',
        api_tag_moderated = Val False, api_tag_emoji_id = Null,
        api_tag_emoji_name = Null\<rparr>"]
  by auto

text \<open>
  The claim C3 as the specification words it fails where \<open>emoji_id\<close> is the empty string:
  both wire fields are present, \<open>??\<close> keeps the empty \<open>emoji_id\<close>, which is falsy, and
  the result has no emoji.
\<close>

theorem forum_tag_emoji_counterexample:
  "(present (api_tag_emoji_id \<lparr>api_tag_id = Val ''1'', api_tag_name = Val ''help'',
        api_tag_moderated = Val False, api_tag_emoji_id = Val '''',
        api_tag_emoji_name = Val ''tada''\<rparr>)
    \<or> present (api_tag_emoji_name \<lparr>api_tag_id = Val ''1'', api_tag_name = Val ''help'',
        api_tag_moderated = Val False, api_tag_emoji_id = Val '''',
        api_tag_emoji_name = Val ''tada''\<rparr>))
   \<and> \<not> present (tag_emoji (transformAPIGuildForumTag \<lparr>api_tag_id = Val ''1'', api_tag_name = Val ''help'',
        api_tag_moderated = Val False, api_tag_emoji_id = Val '''',
        api_tag_emoji_name = Val ''tada''\<rparr>))"
  by (simp add: transformAPIGuildForumTag_def)

text \<open>
  C7, as the code has it. When \<open>emoji_id\<close> is a non-empty string and \<open>emoji_name\<close> is
  populated, going to the application shape and back returns the wire tag. When both
  fields are nullish, the round trip returns the tag with \<open>emoji_id: null\<close> and
  \<open>emoji_name: null\<close> and the other fields as they were.
\<close>

theorem forum_tag_round_trip:
  "(\<forall>i n. api_tag_emoji_id t = Val i \<and> i \<noteq> [] \<and> api_tag_emoji_name t = Val n \<longrightarrow>
      transformGuildForumTag (transformAPIGuildForumTag t) = t)
   \<and> (\<not> present (api_tag_emoji_id t) \<and> \<not> present (api_tag_emoji_name t) \<longrightarrow>
      transformGuildForumTag (transformAPIGuildForumTag t) =
        t\<lparr>api_tag_emoji_id := Null, api_tag_emoji_name := Null\<rparr>)"
  by (cases "api_tag_emoji_id t"; cases "api_tag_emoji_name t")
     (auto simp add: transformAPIGuildForumTag_def transformGuildForumTag_def)

text \<open>The theorem at a tag with both emoji fields populated, and at one with both null.\<close>

theorem forum_tag_round_trip_witness:
  "transformGuildForumTag (transformAPIGuildForumTag \<lparr>api_tag_id = Val ''1'', api_tag_name = Val ''help'',
        api_tag_moderated = Val False, api_tag_emoji_id = Val ''99'',
        api_tag_emoji_name = Val ''tada''\<rparr>)
    = \<lparr>api_tag_id = Val ''1'', api_tag_name = Val ''help'',
        api_tag_moderated = Val False, api_tag_emoji_id = Val ''99'',
        api_tag_emoji_name = Val ''tada''\<rparr>
   \<and> \<not> present (api_tag_emoji_id \<lparr>api_tag_id = Val ''1'', api_tag_name = Val ''help'',
        api_tag_moderated = Val False, api_tag_emoji_id = Null,
        api_tag_emoji_name = Null\<rparr>)
   \<and> \<not> present (api_tag_emoji_name \<lparr>api_tag_id = Val ''1'', api_tag_name = Val ''help'',
        api_tag_moderated = Val False, api_tag_emoji_id = Null,
        api_tag_emoji_name = Null\<rparr>)
   \<and> transformGuildForumTag (transformAPIGuildForumTag \<lparr>api_tag_id = Val ''1'', api_tag_name = Val ''help'',
        api_tag_moderated = Val False, api_tag_emoji_id = Null,
        api_tag_emoji_name = Null\<rparr>)
    = \<lparr>api_tag_id = Val ''1'', api_tag_name = Val ''help'',
        api_tag_moderated = Val False, api_tag_emoji_id = Null,
        api_tag_emoji_name = Null\<rparr>"
  using forum_tag_round_trip [of "\<lparr>api_tag_id = Val ''1'', api_tag_name = Val ''help'',
        api_tag_moderated = Val False, api_tag_emoji_id = Val ''99'',
        api_tag_emoji_name = Val ''tada''\<rparr>"]
    forum_tag_round_trip [of "\<lparr>api_tag_id = Val ''1'', api_tag_name = Val ''help'',
        api_tag_moderated = Val False, api_tag_emoji_id = Null,
        api_tag_emoji_name = Null\<rparr>"]
  by simp

text \<open>
  The claim C7 as the specification words it fails at a tag with both fields populated
  whose \<open>emoji_id\<close> is the empty string: the emoji collapses to \<open>null\<close>, and the way
  back yields \<open>emoji_id: null\<close> and \<open>emoji_name: null\<close>.
\<close>

theorem forum_tag_round_trip_counterexample:
  "present (api_tag_emoji_id \<lparr>api_tag_id = Val ''1'', api_tag_name = Val ''help'',
        api_tag_moderated = Val False, api_tag_emoji_id = Val '''',
        api_tag_emoji_name = Val ''tada''\<rparr>)
   \<and> present (api_tag_emoji_name \<lparr>api_tag_id = Val ''1'', api_tag_name = Val ''help'',
        api_tag_moderated = Val False, api_tag_emoji_id = Val '''',
        api_tag_emoji_name = Val ''tada''\<rparr>)
   \<and> transformGuildForumTag (transformAPIGuildForumTag \<lparr>api_tag_id = Val ''1'', api_tag_name = Val ''help'',
        api_tag_moderated = Val False, api_tag_emoji_id = Val '''',
        api_tag_emoji_name = Val ''tada''\<rparr>)
      \<noteq> \<lparr>api_tag_id = Val ''1'', api_tag_name = Val ''help'',
        api_tag_moderated = Val False, api_tag_emoji_id = Val '''',
        api_tag_emoji_name = Val ''tada''\<rparr>"
  by (simp add: transformAPIGuildForumTag_def transformGuildForumTag_def)

section \<open>Properties of the channel factory\<close>

lemmas ChannelType_defs =
  GuildText_def DM_def GuildVoice_def GroupDM_def GuildCategory_def GuildAnnouncement_def
  AnnouncementThread_def PublicThread_def PrivateThread_def GuildStageVoice_def
  GuildDirectory_def GuildForum_def GuildMedia_def

lemma truthy_obj_present: "truthy_obj a = present a"
  by (cases a) simp_all

text \<open>The \<open>switch\<close> of the source constructs what the table of the specification says.\<close>

lemma switch_type_table:
  "fst (switch_type parent a s g d) =
     map_option (\<lambda>c. new_channel c g d) (map_of guild_variants (api_type d))"
  by (simp add: switch_type_def guild_variants_def ChannelType_defs Let_def)

lemma switch_type_unknown:
  "map_of guild_variants (api_type d) = None \<Longrightarrow> switch_type parent a s g d = (None, s)"
  by (simp add: switch_type_def guild_variants_def ChannelType_defs Let_def split: if_splits)

lemma switch_type_allowed:
  "truthy_bool a \<Longrightarrow> snd (switch_type parent a s g d) = s"
  by (simp add: switch_type_def Let_def)

lemma switch_type_thread:
  "api_type d = AnnouncementThread \<or> api_type d = PublicThread \<or> api_type d = PrivateThread \<Longrightarrow>
   switch_type parent a s g d =
     (Some (new_channel ThreadChannel g d),
      if \<not> truthy_bool a then threads_cache_set parent s (new_channel ThreadChannel g d) else s)"
  by (auto simp add: switch_type_def Let_def ChannelType_defs)

text \<open>
  C1, as the code has it. Let the discriminator of the payload be one of the eleven
  guild-scoped values, mapped by the table of the specification to the class \<open>c\<close>, and
  let a guild \<open>g\<close> be resolvable: supplied as the argument, or, with no argument
  supplied, found in the client's cache under the payload's \<open>guild_id\<close>, where that
  \<open>guild_id\<close> is truthy (a non-empty string), as the test of line 36 requires. Then
  \<open>createChannel\<close> returns an instance, whatever the options; the instance is of class
  \<open>c\<close>, constructed with the guild and the payload, and its identifier is the payload's.
\<close>

theorem createChannel_resolved_guild:
  assumes "map_of guild_variants (api_type d) = Some c"
    and "guild = Some g \<or>
         (guild = None \<and> truthy_str (api_guild_id d)
            \<and> guilds_cache_get s (api_guild_id d) = Some g)"
  shows "\<exists>ch s'. createChannel parent s d guild extras = Inr (Some ch, s')
           \<and> ch = new_channel c (Some g) d \<and> cls ch = c \<and> channel_id ch = api_id d"
proof -
  define a where "a = (case extras of None \<Rightarrow> Undefined | Some e \<Rightarrow> allowUnknownGuild e)"
  obtain ch s1 where sw: "switch_type parent a s (Some g) d = (ch, s1)"
    by (cases "switch_type parent a s (Some g) d")
  have "ch = Some (new_channel c (Some g) d)"
    using switch_type_table [of parent a s "Some g" d] sw assms(1) by simp
  with sw assms(2)
  have "\<exists>s'. createChannel parent s d guild extras = Inr (Some (new_channel c (Some g) d), s')"
    by (auto simp add: createChannel_def Let_def a_def [symmetric] channels_cache_set_def
          split: option.splits)
  then show ?thesis
    by (simp add: new_channel_def)
qed

text \<open>
  The theorem at a voice-channel payload whose guild is found in the client's cache, and
  at a forum payload with the guild supplied.
\<close>

theorem createChannel_resolved_guild_witness:
  "map_of guild_variants (api_type \<lparr>api_id = ''100'', api_type = GuildVoice, api_guild_id = Val ''200'',
        api_recipients = Undefined\<rparr>) = Some VoiceChannel
   \<and> truthy_str (api_guild_id \<lparr>api_id = ''100'', api_type = GuildVoice, api_guild_id = Val ''200'',
        api_recipients = Undefined\<rparr>)
   \<and> guilds_cache_get \<lparr>client_guilds = [''200'' \<mapsto> 1], guild_channels = (\<lambda>g. Some Map.empty),
        channel_threads = (\<lambda>p. Map.empty)\<rparr> (api_guild_id \<lparr>api_id = ''100'', api_type = GuildVoice, api_guild_id = Val ''200'',
        api_recipients = Undefined\<rparr>) = Some 1
   \<and> (\<exists>ch s'. createChannel (\<lambda>s c. None) \<lparr>client_guilds = [''200'' \<mapsto> 1], guild_channels = (\<lambda>g. Some Map.empty),
        channel_threads = (\<lambda>p. Map.empty)\<rparr> \<lparr>api_id = ''100'', api_type = GuildVoice, api_guild_id = Val ''200'',
        api_recipients = Undefined\<rparr> None None = Inr (Some ch, s')
         \<and> cls ch = VoiceChannel \<and> channel_id ch = ''100'')
   \<and> map_of guild_variants (api_type \<lparr>api_id = ''101'', api_type = GuildForum, api_guild_id = Undefined,
        api_recipients = Undefined\<rparr>) = Some ForumChannel
   \<and> (\<exists>ch s'. createChannel (\<lambda>s c. None) \<lparr>client_guilds = [''200'' \<mapsto> 1], guild_channels = (\<lambda>g. Some Map.empty),
        channel_threads = (\<lambda>p. Map.empty)\<rparr> \<lparr>api_id = ''101'', api_type = GuildForum, api_guild_id = Undefined,
        api_recipients = Undefined\<rparr> (Some 4) None = Inr (Some ch, s')
         \<and> cls ch = ForumChannel \<and> channel_id ch = ''101'')"
  using createChannel_resolved_guild
      [of "\<lparr>api_id = ''100'', api_type = GuildVoice, api_guild_id = Val ''200'',
        api_recipients = Undefined\<rparr>" VoiceChannel None 1 "\<lparr>client_guilds = [''200'' \<mapsto> 1], guild_channels = (\<lambda>g. Some Map.empty),
        channel_threads = (\<lambda>p. Map.empty)\<rparr>" "\<lambda>s c. None" None]
    createChannel_resolved_guild
      [of "\<lparr>api_id = ''101'', api_type = GuildForum, api_guild_id = Undefined,
        api_recipients = Undefined\<rparr>" ForumChannel "Some 4" 4 "\<lparr>client_guilds = [''200'' \<mapsto> 1], guild_channels = (\<lambda>g. Some Map.empty),
        channel_threads = (\<lambda>p. Map.empty)\<rparr>" "\<lambda>s c. None" None]
  by (auto simp add: guild_variants_def ChannelType_defs guilds_cache_get_def)

text \<open>
  The claim C1 as the specification words it fails where \<open>guild_id\<close> is the empty
  string: a text-channel payload with \<open>guild_id: ''\<close>, no guild supplied, and a guild
  that the client's cache holds under the key \<open>''\<close>. The guild is found by the payload's
  \<open>guild_id\<close>, but the empty string is falsy, so line 36 takes the user-scoped branch,
  and the result is absent.
\<close>

theorem createChannel_resolved_guild_counterexample:
  "map_of guild_variants
      (api_type \<lparr>api_id = ''106'', api_type = GuildText, api_guild_id = Val '''',
         api_recipients = Undefined\<rparr>) = Some TextChannel
   \<and> guilds_cache_get
        \<lparr>client_guilds = ['''' \<mapsto> 1], guild_channels = (\<lambda>g. Some Map.empty),
         channel_threads = (\<lambda>p. Map.empty)\<rparr>
        (api_guild_id \<lparr>api_id = ''106'', api_type = GuildText, api_guild_id = Val '''',
           api_recipients = Undefined\<rparr>) = Some 1
   \<and> createChannel (\<lambda>s c. None)
        \<lparr>client_guilds = ['''' \<mapsto> 1], guild_channels = (\<lambda>g. Some Map.empty),
         channel_threads = (\<lambda>p. Map.empty)\<rparr>
        \<lparr>api_id = ''106'', api_type = GuildText, api_guild_id = Val '''',
         api_recipients = Undefined\<rparr> None None
      = Inr (None,
             \<lparr>client_guilds = ['''' \<mapsto> 1], guild_channels = (\<lambda>g. Some Map.empty),
              channel_threads = (\<lambda>p. Map.empty)\<rparr>)"
  by (simp add: createChannel_def guilds_cache_get_def guild_variants_def ChannelType_defs)

text \<open>
  C2. Let the payload carry no guild identifier (\<open>guild_id\<close> is falsy) and let no guild
  be supplied. If the payload has a \<open>recipients\<close> field and its discriminator is not the
  group-DM value, or its discriminator is the DM value, \<open>createChannel\<close> returns a DM
  instance; else, if its discriminator is the group-DM value, it returns a
  Partial-Group-DM instance. The caches are left as they were.
\<close>

theorem createChannel_user_scoped:
  assumes "\<not> truthy_str (api_guild_id d)" and "guild = None"
  shows "((present (api_recipients d) \<and> api_type d \<noteq> GroupDM) \<or> api_type d = DM \<longrightarrow>
            createChannel parent s d guild extras = Inr (Some (new_channel DMChannel None d), s))
       \<and> (\<not> ((present (api_recipients d) \<and> api_type d \<noteq> GroupDM) \<or> api_type d = DM)
            \<and> api_type d = GroupDM \<longrightarrow>
            createChannel parent s d guild extras =
              Inr (Some (new_channel PartialGroupDMChannel None d), s))"
  using assms by (simp add: createChannel_def truthy_obj_present)

text \<open>
  The theorem at a payload with \<open>recipients\<close> and an unrelated discriminator (the forum
  value), which resolves to DM, and at a group-DM payload.
\<close>

theorem createChannel_user_scoped_witness:
  "\<not> truthy_str (api_guild_id \<lparr>api_id = ''7'', api_type = GuildForum, api_guild_id = Undefined,
        api_recipients = Val [''42'']\<rparr>)
   \<and> present (api_recipients \<lparr>api_id = ''7'', api_type = GuildForum, api_guild_id = Undefined,
        api_recipients = Val [''42'']\<rparr>) \<and> api_type \<lparr>api_id = ''7'', api_type = GuildForum, api_guild_id = Undefined,
        api_recipients = Val [''42'']\<rparr> \<noteq> GroupDM
   \<and> createChannel (\<lambda>s c. None) \<lparr>client_guilds = Map.empty, guild_channels = (\<lambda>g. None),
        channel_threads = (\<lambda>p. Map.empty)\<rparr> \<lparr>api_id = ''7'', api_type = GuildForum, api_guild_id = Undefined,
        api_recipients = Val [''42'']\<rparr> None None
      = Inr (Some \<lparr>cls = DMChannel, channel_id = ''7'', channel_guild = None,
                   channel_data = \<lparr>api_id = ''7'', api_type = GuildForum, api_guild_id = Undefined,
        api_recipients = Val [''42'']\<rparr>\<rparr>,
             \<lparr>client_guilds = Map.empty, guild_channels = (\<lambda>g. None),
        channel_threads = (\<lambda>p. Map.empty)\<rparr>)
   \<and> \<not> truthy_str (api_guild_id \<lparr>api_id = ''8'', api_type = GroupDM, api_guild_id = Undefined,
        api_recipients = Val [''42'', ''43'']\<rparr>)
   \<and> api_type \<lparr>api_id = ''8'', api_type = GroupDM, api_guild_id = Undefined,
        api_recipients = Val [''42'', ''43'']\<rparr> = GroupDM
   \<and> createChannel (\<lambda>s c. None) \<lparr>client_guilds = Map.empty, guild_channels = (\<lambda>g. None),
        channel_threads = (\<lambda>p. Map.empty)\<rparr> \<lparr>api_id = ''8'', api_type = GroupDM, api_guild_id = Undefined,
        api_recipients = Val [''42'', ''43'']\<rparr> None None
      = Inr (Some \<lparr>cls = PartialGroupDMChannel, channel_id = ''8'', channel_guild = None,
                   channel_data = \<lparr>api_id = ''8'', api_type = GroupDM, api_guild_id = Undefined,
        api_recipients = Val [''42'', ''43'']\<rparr>\<rparr>,
             \<lparr>client_guilds = Map.empty, guild_channels = (\<lambda>g. None),
        channel_threads = (\<lambda>p. Map.empty)\<rparr>)"
  using createChannel_user_scoped
      [of "\<lparr>api_id = ''7'', api_type = GuildForum, api_guild_id = Undefined,
        api_recipients = Val [''42'']\<rparr>" None "\<lambda>s c. None" "\<lparr>client_guilds = Map.empty, guild_channels = (\<lambda>g. None),
        channel_threads = (\<lambda>p. Map.empty)\<rparr>" None]
    createChannel_user_scoped
      [of "\<lparr>api_id = ''8'', api_type = GroupDM, api_guild_id = Undefined,
        api_recipients = Val [''42'', ''43'']\<rparr>" None "\<lambda>s c. None" "\<lparr>client_guilds = Map.empty, guild_channels = (\<lambda>g. None),
        channel_threads = (\<lambda>p. Map.empty)\<rparr>" None]
  by (simp add: new_channel_def ChannelType_defs)

text \<open>
  C8. Let the payload be on the guild-scoped path (it carries a guild identifier, or a
  guild is supplied) and let its discriminator be none of the eleven guild-scoped values.
  Then, whatever the options and whether or not a guild is resolved, \<open>createChannel\<close>
  returns normally with an absent result and leaves every cache as it was.
\<close>

theorem createChannel_unrecognized:
  assumes "truthy_str (api_guild_id d) \<or> guild \<noteq> None"
    and "api_type d \<notin> fst ` set guild_variants"
  shows "createChannel parent s d guild extras = Inr (None, s)"
proof -
  have "map_of guild_variants (api_type d) = None"
    using assms(2) by (simp add: map_of_eq_None_iff)
  then have "\<And>a g. switch_type parent a s g d = (None, s)"
    by (rule switch_type_unknown)
  with assms(1) show ?thesis
    by (auto simp add: createChannel_def Let_def)
qed

text \<open>
  The theorem at a payload of an unknown type 7 whose guild is in the client's cache, and
  at a DM-typed payload handed in with a guild.
\<close>

theorem createChannel_unrecognized_witness:
  "truthy_str (api_guild_id \<lparr>api_id = ''104'', api_type = 7, api_guild_id = Val ''200'',
        api_recipients = Undefined\<rparr>)
   \<and> api_type \<lparr>api_id = ''104'', api_type = 7, api_guild_id = Val ''200'',
        api_recipients = Undefined\<rparr> \<notin> fst ` set guild_variants
   \<and> createChannel (\<lambda>s c. Some 9) \<lparr>client_guilds = [''200'' \<mapsto> 1], guild_channels = (\<lambda>g. Some Map.empty),
        channel_threads = (\<lambda>p. Map.empty)\<rparr> \<lparr>api_id = ''104'', api_type = 7, api_guild_id = Val ''200'',
        api_recipients = Undefined\<rparr> None None = Inr (None, \<lparr>client_guilds = [''200'' \<mapsto> 1], guild_channels = (\<lambda>g. Some Map.empty),
        channel_threads = (\<lambda>p. Map.empty)\<rparr>)
   \<and> api_type \<lparr>api_id = ''105'', api_type = DM, api_guild_id = Undefined,
        api_recipients = Undefined\<rparr> \<notin> fst ` set guild_variants
   \<and> createChannel (\<lambda>s c. Some 9) \<lparr>client_guilds = [''200'' \<mapsto> 1], guild_channels = (\<lambda>g. Some Map.empty),
        channel_threads = (\<lambda>p. Map.empty)\<rparr> \<lparr>api_id = ''105'', api_type = DM, api_guild_id = Undefined,
        api_recipients = Undefined\<rparr> (Some 1)
        (Some \<lparr>allowUnknownGuild = Val True, allowFromUnknownGuild = Val True\<rparr>)
      = Inr (None, \<lparr>client_guilds = [''200'' \<mapsto> 1], guild_channels = (\<lambda>g. Some Map.empty),
        channel_threads = (\<lambda>p. Map.empty)\<rparr>)"
  using createChannel_unrecognized
      [of "\<lparr>api_id = ''104'', api_type = 7, api_guild_id = Val ''200'',
        api_recipients = Undefined\<rparr>" None "\<lambda>s c. Some 9" "\<lparr>client_guilds = [''200'' \<mapsto> 1], guild_channels = (\<lambda>g. Some Map.empty),
        channel_threads = (\<lambda>p. Map.empty)\<rparr>" None]
    createChannel_unrecognized
      [of "\<lparr>api_id = ''105'', api_type = DM, api_guild_id = Undefined,
        api_recipients = Undefined\<rparr>" "Some 1" "\<lambda>s c. Some 9" "\<lparr>client_guilds = [''200'' \<mapsto> 1], guild_channels = (\<lambda>g. Some Map.empty),
        channel_threads = (\<lambda>p. Map.empty)\<rparr>"
          "Some \<lparr>allowUnknownGuild = Val True, allowFromUnknownGuild = Val True\<rparr>"]
  by (simp add: guild_variants_def ChannelType_defs)

text \<open>
  C10. The only property of the options bag that \<open>createChannel\<close> reads is
  \<open>allowUnknownGuild\<close>: two bags that agree on it give the same result and the same
  store, whatever else they carry, and a bag without it behaves as no bag at all.
\<close>

theorem createChannel_options:
  "(allowUnknownGuild o1 = allowUnknownGuild o2 \<longrightarrow>
      createChannel parent s d guild (Some o1) = createChannel parent s d guild (Some o2))
   \<and> (allowUnknownGuild o1 = Undefined \<longrightarrow>
      createChannel parent s d guild (Some o1) = createChannel parent s d guild None)"
  by (simp add: createChannel_def)

text \<open>
  The theorem at two bags without \<open>allowUnknownGuild\<close>, one of which carries
  \<open>allowFromUnknownGuild: true\<close>.
\<close>

theorem createChannel_options_witness:
  "allowUnknownGuild \<lparr>allowUnknownGuild = Undefined, allowFromUnknownGuild = Val True\<rparr>
     = allowUnknownGuild \<lparr>allowUnknownGuild = Undefined, allowFromUnknownGuild = Undefined\<rparr>
   \<and> createChannel (\<lambda>s c. None) \<lparr>client_guilds = Map.empty, guild_channels = (\<lambda>g. None),
        channel_threads = (\<lambda>p. Map.empty)\<rparr> \<lparr>api_id = ''102'', api_type = GuildText, api_guild_id = Val ''200'',
        api_recipients = Undefined\<rparr> None
        (Some \<lparr>allowUnknownGuild = Undefined, allowFromUnknownGuild = Val True\<rparr>)
     = createChannel (\<lambda>s c. None) \<lparr>client_guilds = Map.empty, guild_channels = (\<lambda>g. None),
        channel_threads = (\<lambda>p. Map.empty)\<rparr> \<lparr>api_id = ''102'', api_type = GuildText, api_guild_id = Val ''200'',
        api_recipients = Undefined\<rparr> None
        (Some \<lparr>allowUnknownGuild = Undefined, allowFromUnknownGuild = Undefined\<rparr>)
   \<and> createChannel (\<lambda>s c. None) \<lparr>client_guilds = Map.empty, guild_channels = (\<lambda>g. None),
        channel_threads = (\<lambda>p. Map.empty)\<rparr> \<lparr>api_id = ''102'', api_type = GuildText, api_guild_id = Val ''200'',
        api_recipients = Undefined\<rparr> None
        (Some \<lparr>allowUnknownGuild = Undefined, allowFromUnknownGuild = Val True\<rparr>)
     = createChannel (\<lambda>s c. None) \<lparr>client_guilds = Map.empty, guild_channels = (\<lambda>g. None),
        channel_threads = (\<lambda>p. Map.empty)\<rparr> \<lparr>api_id = ''102'', api_type = GuildText, api_guild_id = Val ''200'',
        api_recipients = Undefined\<rparr> None None"
  using createChannel_options
      [of "\<lparr>allowUnknownGuild = Undefined, allowFromUnknownGuild = Val True\<rparr>"
          "\<lparr>allowUnknownGuild = Undefined, allowFromUnknownGuild = Undefined\<rparr>"
          "\<lambda>s c. None" "\<lparr>client_guilds = Map.empty, guild_channels = (\<lambda>g. None),
        channel_threads = (\<lambda>p. Map.empty)\<rparr>" "\<lparr>api_id = ''102'', api_type = GuildText, api_guild_id = Val ''200'',
        api_recipients = Undefined\<rparr>" None]
  by auto

subsection \<open>What the option that the code reads does\<close>

text \<open>
  The source contains no \<open>throw\<close>, and the one dereference that could fail, of
  \<open>guild\<close> in line 84, is only reached with a guild: the call never raises.
\<close>

lemma createChannel_never_raises:
  "createChannel parent s d guild extras \<noteq> Inl e"
  by (auto simp add: createChannel_def Let_def channels_cache_set_def
      split: prod.splits option.splits sum.splits)

text \<open>With an unknown guild and a falsy \<open>allowUnknownGuild\<close>, nothing is constructed.\<close>

lemma createChannel_unknown_guild_absent:
  assumes "truthy_str (api_guild_id d)" and "guilds_cache_get s (api_guild_id d) = None"
    and "\<not> truthy_bool (case extras of None \<Rightarrow> Undefined | Some e \<Rightarrow> allowUnknownGuild e)"
  shows "createChannel parent s d None extras = Inr (None, s)"
  using assms by (simp add: createChannel_def Let_def)

text \<open>
  With an unknown guild and a truthy \<open>allowUnknownGuild\<close>, the mapped class is
  constructed without a guild, and no cache is written.
\<close>

lemma createChannel_unknown_guild_allowed:
  assumes "truthy_str (api_guild_id d)" and "guilds_cache_get s (api_guild_id d) = None"
    and "truthy_bool (case extras of None \<Rightarrow> Undefined | Some e \<Rightarrow> allowUnknownGuild e)"
  shows "createChannel parent s d None extras =
           Inr (map_option (\<lambda>c. new_channel c None d) (map_of guild_variants (api_type d)), s)"
proof -
  define a where "a = (case extras of None \<Rightarrow> Undefined | Some e \<Rightarrow> allowUnknownGuild e)"
  obtain ch s1 where sw: "switch_type parent a s None d = (ch, s1)"
    by (cases "switch_type parent a s None d")
  have "ch = map_option (\<lambda>c. new_channel c None d) (map_of guild_variants (api_type d))"
    using switch_type_table [of parent a s None d] sw by simp
  moreover have "s1 = s"
    using switch_type_allowed [of a parent s None d] sw assms(3) by (simp add: a_def)
  ultimately show ?thesis
    using assms sw
    by (auto simp add: createChannel_def Let_def a_def [symmetric] split: option.splits)
qed

text \<open>A truthy \<open>allowUnknownGuild\<close> suppresses every cache write, guild resolved or not.\<close>

lemma createChannel_allowed_frame:
  assumes "truthy_bool (case extras of None \<Rightarrow> Undefined | Some e \<Rightarrow> allowUnknownGuild e)"
  shows "\<exists>ch. createChannel parent s d guild extras = Inr (ch, s)"
proof -
  define a where "a = (case extras of None \<Rightarrow> Undefined | Some e \<Rightarrow> allowUnknownGuild e)"
  have "\<And>g. snd (switch_type parent a s g d) = s"
    using assms by (simp add: switch_type_allowed a_def)
  then have "\<And>g ch s1. switch_type parent a s g d = (ch, s1) \<Longrightarrow> s1 = s"
    by (metis snd_conv)
  with assms show ?thesis
    by (auto simp add: createChannel_def Let_def a_def [symmetric]
          split: prod.splits option.splits)
qed

text \<open>
  With a falsy \<open>allowUnknownGuild\<close>, a thread whose guild is resolved and has a channel
  cache, and whose parent is resolved, is registered in the parent's thread cache and in
  the guild's channel cache under its identifier.
\<close>

lemma createChannel_thread_registered:
  assumes "api_type d = AnnouncementThread \<or> api_type d = PublicThread
             \<or> api_type d = PrivateThread"
    and "guild = Some g \<or>
         (guild = None \<and> truthy_str (api_guild_id d)
            \<and> guilds_cache_get s (api_guild_id d) = Some g)"
    and "guild_channels s g = Some cache"
    and "parent s (new_channel ThreadChannel (Some g) d) = Some p"
    and "\<not> truthy_bool (case extras of None \<Rightarrow> Undefined | Some e \<Rightarrow> allowUnknownGuild e)"
  shows "\<exists>s' cache'. createChannel parent s d guild extras =
             Inr (Some (new_channel ThreadChannel (Some g) d), s')
           \<and> channel_threads s' p (api_id d) = Some (new_channel ThreadChannel (Some g) d)
           \<and> guild_channels s' g = Some cache'
           \<and> cache' (api_id d) = Some (new_channel ThreadChannel (Some g) d)"
proof -
  define a where "a = (case extras of None \<Rightarrow> Undefined | Some e \<Rightarrow> allowUnknownGuild e)"
  let ?ch = "new_channel ThreadChannel (Some g) d"
  have sw: "switch_type parent a s (Some g) d = (Some ?ch, threads_cache_set parent s ?ch)"
    using switch_type_thread [OF assms(1), of parent a s "Some g"] assms(5)
    by (simp add: a_def)
  have id: "channel_id ?ch = api_id d"
    by (simp add: new_channel_def)
  show ?thesis
    using assms(2-5) sw id
    by (auto simp add: createChannel_def Let_def a_def [symmetric] channels_cache_set_def
          threads_cache_set_def)
qed

subsection \<open>The documented option against the option that is read\<close>

text \<open>
  C4. The type definition documents the option as \<open>allowFromUnknownGuild\<close>; the code
  destructures \<open>allowUnknownGuild\<close>. For a payload whose guild is not in the client's
  cache, a bag with \<open>allowFromUnknownGuild: true\<close> in which \<open>allowUnknownGuild\<close> is not
  truthy yields an absent result (and the store as it was), where the documented option
  asks for an instance.
\<close>

theorem createChannel_allowFromUnknownGuild_not_read:
  assumes "truthy_str (api_guild_id d)" and "guilds_cache_get s (api_guild_id d) = None"
    and "\<not> truthy_bool (allowUnknownGuild e)"
  shows "createChannel parent s d None (Some (e\<lparr>allowFromUnknownGuild := Val True\<rparr>))
           = Inr (None, s)"
  using assms by (simp add: createChannel_def Let_def)

text \<open>
  The theorem at a text-channel payload of the unknown guild 200, created with
  \<open>{ allowFromUnknownGuild: true }\<close>.
\<close>

theorem createChannel_allowFromUnknownGuild_not_read_witness:
  "truthy_str (api_guild_id \<lparr>api_id = ''102'', api_type = GuildText, api_guild_id = Val ''200'',
        api_recipients = Undefined\<rparr>)
   \<and> guilds_cache_get \<lparr>client_guilds = Map.empty, guild_channels = (\<lambda>g. None),
        channel_threads = (\<lambda>p. Map.empty)\<rparr> (api_guild_id \<lparr>api_id = ''102'', api_type = GuildText, api_guild_id = Val ''200'',
        api_recipients = Undefined\<rparr>) = None
   \<and> \<not> truthy_bool (allowUnknownGuild
          \<lparr>allowUnknownGuild = Undefined, allowFromUnknownGuild = Undefined\<rparr>)
   \<and> createChannel (\<lambda>s c. None) \<lparr>client_guilds = Map.empty, guild_channels = (\<lambda>g. None),
        channel_threads = (\<lambda>p. Map.empty)\<rparr> \<lparr>api_id = ''102'', api_type = GuildText, api_guild_id = Val ''200'',
        api_recipients = Undefined\<rparr> None
        (Some \<lparr>allowUnknownGuild = Undefined, allowFromUnknownGuild = Val True\<rparr>)
      = Inr (None, \<lparr>client_guilds = Map.empty, guild_channels = (\<lambda>g. None),
        channel_threads = (\<lambda>p. Map.empty)\<rparr>)"
  using createChannel_allowFromUnknownGuild_not_read
      [of "\<lparr>api_id = ''102'', api_type = GuildText, api_guild_id = Val ''200'',
        api_recipients = Undefined\<rparr>" "\<lparr>client_guilds = Map.empty, guild_channels = (\<lambda>g. None),
        channel_threads = (\<lambda>p. Map.empty)\<rparr>"
          "\<lparr>allowUnknownGuild = Undefined, allowFromUnknownGuild = Undefined\<rparr>"
          "\<lambda>s c. None"]
  by (simp add: guilds_cache_get_def)

text \<open>
  C5. For a payload with one of the eleven guild-scoped discriminators whose guild is not
  in the client's cache, a bag in which the documented \<open>allowFromUnknownGuild\<close> is unset
  or false but \<open>allowUnknownGuild\<close> is true makes the code construct the mapped class
  without a guild, where the documented option asks for an absent result.
\<close>

theorem createChannel_allowUnknownGuild_constructs:
  assumes "truthy_str (api_guild_id d)" and "guilds_cache_get s (api_guild_id d) = None"
    and "map_of guild_variants (api_type d) = Some c"
    and "\<not> truthy_bool (allowFromUnknownGuild e)"
    and "truthy_bool (allowUnknownGuild e)"
  shows "createChannel parent s d None (Some e) = Inr (Some (new_channel c None d), s)"
  using createChannel_unknown_guild_allowed [of d s "Some e" parent] assms
  by simp

text \<open>
  The theorem at the text-channel payload of the unknown guild 200, created with
  \<open>{ allowUnknownGuild: true }\<close>.
\<close>

theorem createChannel_allowUnknownGuild_constructs_witness:
  "truthy_str (api_guild_id \<lparr>api_id = ''102'', api_type = GuildText, api_guild_id = Val ''200'',
        api_recipients = Undefined\<rparr>)
   \<and> guilds_cache_get \<lparr>client_guilds = Map.empty, guild_channels = (\<lambda>g. None),
        channel_threads = (\<lambda>p. Map.empty)\<rparr> (api_guild_id \<lparr>api_id = ''102'', api_type = GuildText, api_guild_id = Val ''200'',
        api_recipients = Undefined\<rparr>) = None
   \<and> map_of guild_variants (api_type \<lparr>api_id = ''102'', api_type = GuildText, api_guild_id = Val ''200'',
        api_recipients = Undefined\<rparr>) = Some TextChannel
   \<and> \<not> truthy_bool (allowFromUnknownGuild
          \<lparr>allowUnknownGuild = Val True, allowFromUnknownGuild = Undefined\<rparr>)
   \<and> truthy_bool (allowUnknownGuild
          \<lparr>allowUnknownGuild = Val True, allowFromUnknownGuild = Undefined\<rparr>)
   \<and> createChannel (\<lambda>s c. None) \<lparr>client_guilds = Map.empty, guild_channels = (\<lambda>g. None),
        channel_threads = (\<lambda>p. Map.empty)\<rparr> \<lparr>api_id = ''102'', api_type = GuildText, api_guild_id = Val ''200'',
        api_recipients = Undefined\<rparr> None
        (Some \<lparr>allowUnknownGuild = Val True, allowFromUnknownGuild = Undefined\<rparr>)
      = Inr (Some \<lparr>cls = TextChannel, channel_id = ''102'', channel_guild = None,
                   channel_data = \<lparr>api_id = ''102'', api_type = GuildText, api_guild_id = Val ''200'',
        api_recipients = Undefined\<rparr>\<rparr>,
             \<lparr>client_guilds = Map.empty, guild_channels = (\<lambda>g. None),
        channel_threads = (\<lambda>p. Map.empty)\<rparr>)"
  using createChannel_allowUnknownGuild_constructs
      [of "\<lparr>api_id = ''102'', api_type = GuildText, api_guild_id = Val ''200'',
        api_recipients = Undefined\<rparr>" "\<lparr>client_guilds = Map.empty, guild_channels = (\<lambda>g. None),
        channel_threads = (\<lambda>p. Map.empty)\<rparr>" TextChannel
          "\<lparr>allowUnknownGuild = Val True, allowFromUnknownGuild = Undefined\<rparr>"
          "\<lambda>s c. None"]
  by (simp add: guilds_cache_get_def guild_variants_def ChannelType_defs new_channel_def)

text \<open>
  C6. For a thread payload whose guild is resolved, a bag in which the documented
  \<open>allowFromUnknownGuild\<close> is unset or false but \<open>allowUnknownGuild\<close> is true makes the
  code construct the thread and leave the store as it was, whatever the parent and the
  guild's channel cache: the thread is registered in neither cache, where the documented
  option asks for both registrations.
\<close>

theorem createChannel_allowUnknownGuild_no_registration:
  assumes "api_type d = AnnouncementThread \<or> api_type d = PublicThread
             \<or> api_type d = PrivateThread"
    and "guild = Some g \<or>
         (guild = None \<and> truthy_str (api_guild_id d)
            \<and> guilds_cache_get s (api_guild_id d) = Some g)"
    and "\<not> truthy_bool (allowFromUnknownGuild e)"
    and "truthy_bool (allowUnknownGuild e)"
  shows "createChannel parent s d guild (Some e)
           = Inr (Some (new_channel ThreadChannel (Some g) d), s)"
proof -
  have "switch_type parent (allowUnknownGuild e) s (Some g) d
          = (Some (new_channel ThreadChannel (Some g) d), s)"
    using switch_type_thread [OF assms(1), of parent "allowUnknownGuild e" s "Some g"] assms(4)
    by simp
  with assms(2,4) show ?thesis
    by (auto simp add: createChannel_def Let_def)
qed

text \<open>
  The theorem at a public-thread payload whose guild 200 is in the client's cache and has
  a channel cache, and whose parent channel 9 is resolved, created with
  \<open>{ allowFromUnknownGuild: false, allowUnknownGuild: true }\<close>: after the call the
  parent's thread cache and the guild's channel cache are still empty.
\<close>

theorem createChannel_allowUnknownGuild_no_registration_witness:
  "api_type \<lparr>api_id = ''103'', api_type = PublicThread, api_guild_id = Val ''200'',
        api_recipients = Undefined\<rparr> = PublicThread
   \<and> truthy_str (api_guild_id \<lparr>api_id = ''103'', api_type = PublicThread, api_guild_id = Val ''200'',
        api_recipients = Undefined\<rparr>)
   \<and> guilds_cache_get \<lparr>client_guilds = [''200'' \<mapsto> 1], guild_channels = (\<lambda>g. Some Map.empty),
        channel_threads = (\<lambda>p. Map.empty)\<rparr> (api_guild_id \<lparr>api_id = ''103'', api_type = PublicThread, api_guild_id = Val ''200'',
        api_recipients = Undefined\<rparr>) = Some 1
   \<and> \<not> truthy_bool (allowFromUnknownGuild
          \<lparr>allowUnknownGuild = Val True, allowFromUnknownGuild = Val False\<rparr>)
   \<and> truthy_bool (allowUnknownGuild
          \<lparr>allowUnknownGuild = Val True, allowFromUnknownGuild = Val False\<rparr>)
   \<and> createChannel (\<lambda>s c. Some 9) \<lparr>client_guilds = [''200'' \<mapsto> 1], guild_channels = (\<lambda>g. Some Map.empty),
        channel_threads = (\<lambda>p. Map.empty)\<rparr> \<lparr>api_id = ''103'', api_type = PublicThread, api_guild_id = Val ''200'',
        api_recipients = Undefined\<rparr> None
        (Some \<lparr>allowUnknownGuild = Val True, allowFromUnknownGuild = Val False\<rparr>)
      = Inr (Some \<lparr>cls = ThreadChannel, channel_id = ''103'', channel_guild = Some 1,
                   channel_data = \<lparr>api_id = ''103'', api_type = PublicThread, api_guild_id = Val ''200'',
        api_recipients = Undefined\<rparr>\<rparr>,
             \<lparr>client_guilds = [''200'' \<mapsto> 1], guild_channels = (\<lambda>g. Some Map.empty),
        channel_threads = (\<lambda>p. Map.empty)\<rparr>)
   \<and> channel_threads \<lparr>client_guilds = [''200'' \<mapsto> 1], guild_channels = (\<lambda>g. Some Map.empty),
        channel_threads = (\<lambda>p. Map.empty)\<rparr> 9 ''103'' = None
   \<and> guild_channels \<lparr>client_guilds = [''200'' \<mapsto> 1], guild_channels = (\<lambda>g. Some Map.empty),
        channel_threads = (\<lambda>p. Map.empty)\<rparr> 1 = Some Map.empty"
  using createChannel_allowUnknownGuild_no_registration
      [of "\<lparr>api_id = ''103'', api_type = PublicThread, api_guild_id = Val ''200'',
        api_recipients = Undefined\<rparr>" None 1 "\<lparr>client_guilds = [''200'' \<mapsto> 1], guild_channels = (\<lambda>g. Some Map.empty),
        channel_threads = (\<lambda>p. Map.empty)\<rparr>"
          "\<lparr>allowUnknownGuild = Val True, allowFromUnknownGuild = Val False\<rparr>"
          "\<lambda>s c. Some 9"]
  by (simp add: guilds_cache_get_def new_channel_def)

end
